theory Spec2Isabelle
  imports Main
begin

section \<open>Python values, exceptions and string helpers\<close>

text \<open>
  The metadata model of \<^verbatim>\<open>sdmx_metadata.py\<close> raises no exception of its own: every
  failure is one of Python's built-in exceptions. \<open>AttributeError\<close> is what
  \<^verbatim>\<open>None.attrib\<close>, \<^verbatim>\<open>None.find(...)\<close>, \<^verbatim>\<open>None.text\<close> and \<^verbatim>\<open>None.strip()\<close> raise,
  \<open>KeyError\<close> is what indexing a dictionary with a missing key raises, and
  \<open>SyntaxError\<close> is what \<^verbatim>\<open>find\<close> raises for a path it cannot read. A function that
  can raise returns \<open>py_error + 'a\<close>, with \<open>Inl\<close> the exception.

  Python's \<^verbatim>\<open>None\<close> is \<open>None\<close> of an option type wherever the source can hold it: the
  text of an element (\<^verbatim>\<open>element.text\<close> of an element without character data), hence a
  concept name and a description, and the coded value handed to
  \<^verbatim>\<open>description_by_code_level\<close>.

  A \<open>char\<close> is a code point below 256, so a string is text of that range.
\<close>

datatype py_error = AttributeError | KeyError | SyntaxError

definition py_split1 :: "char \<Rightarrow> string \<Rightarrow> string list" where
  \<comment> \<open>\<^verbatim>\<open>s.split(sep, 1)\<close> for a separator of one character: at most one split, at the
      first occurrence.\<close>
  "py_split1 sep s =
     (if sep \<in> set s
      then [takeWhile (\<lambda>c. c \<noteq> sep) s, tl (dropWhile (\<lambda>c. c \<noteq> sep) s)]
      else [s])"

definition py_isspace :: "char \<Rightarrow> bool" where
  \<comment> \<open>The code points below 256 that \<^verbatim>\<open>str.isspace\<close> accepts, which are the ones
      \<^verbatim>\<open>str.strip()\<close> removes.\<close>
  "py_isspace c =
     (c \<in> set [CHR 0x09, CHR 0x0A, CHR 0x0B, CHR 0x0C, CHR 0x0D,
                 CHR 0x1C, CHR 0x1D, CHR 0x1E, CHR 0x1F, CHR 0x20, CHR 0x85, CHR 0xA0])"

definition py_strip :: "string \<Rightarrow> string" where
  \<comment> \<open>\<^verbatim>\<open>s.strip()\<close>\<close>
  "py_strip s = rev (dropWhile py_isspace (rev (dropWhile py_isspace s)))"

definition py_first :: "'a list \<Rightarrow> 'a option" where
  \<comment> \<open>\<^verbatim>\<open>next(iterator, None)\<close>, which is how \<^verbatim>\<open>find\<close> takes the first match of
      \<^verbatim>\<open>iterfind\<close>.\<close>
  "py_first xs = (case xs of [] \<Rightarrow> None | x # _ \<Rightarrow> Some x)"

section \<open>The element tree\<close>

text \<open>
  An \<^verbatim>\<open>xml.etree\<close> element as the metadata model reads it: its tag, its attribute
  dictionary, its text and its child elements in document order.

  The searches are the ones \<^verbatim>\<open>ElementPath\<close> runs for the paths of the source:
  \<^verbatim>\<open>findall\<close> lists the matches in document order and \<^verbatim>\<open>find\<close> takes the first of
  them or \<^verbatim>\<open>None\<close>. The step \<^verbatim>\<open>//\<close> ranges over the elements below the context
  element, never over the context element itself.

  The source builds two paths by writing an identifier between double quotes,
  \<^verbatim>\<open>'.//Concept[@id="%s"]' % code\<close> and \<^verbatim>\<open>'.//CodeList[@id="%s"]' % codelist_key\<close>.
  For an identifier without a double quote the path compares the \<open>id\<close> attribute
  with the identifier. A double quote in the identifier ends the quoted string early,
  and \<^verbatim>\<open>find\<close> refuses what is left of the predicate with a \<open>SyntaxError\<close>; the model
  takes that exception for every such identifier. (An identifier written so that the
  text after its double quote is path syntax again makes another path; the statements
  below that say when the constructor returns an object, or that a loop raises
  nothing, assume identifiers without a double quote.)
\<close>

datatype element =
  Element (tag: string) (attrib: "string \<rightharpoonup> string") (etext: "string option")
    (children: "element list")

fun iter :: "element \<Rightarrow> element list" where
  \<comment> \<open>\<^verbatim>\<open>element.iter()\<close>: the element, then its subtree, in document order.\<close>
  "iter (Element t a x cs) = Element t a x cs # concat (map iter cs)"

definition descendants :: "element \<Rightarrow> element list" where
  \<comment> \<open>\<^verbatim>\<open>for e in elem.iter(): if e is not elem: yield e\<close>\<close>
  "descendants e = concat (map iter (children e))"

definition findall_descendant :: "string \<Rightarrow> element \<Rightarrow> element list" where
  \<comment> \<open>the path \<^verbatim>\<open>.//Tag\<close>\<close>
  "findall_descendant t e = filter (\<lambda>d. tag d = t) (descendants e)"

definition findall_child :: "string \<Rightarrow> element \<Rightarrow> element list" where
  \<comment> \<open>the path \<^verbatim>\<open>Tag\<close>\<close>
  "findall_child t e = filter (\<lambda>d. tag d = t) (children e)"

definition path_broken :: "string \<Rightarrow> bool" where
  \<comment> \<open>The identifier holds a double quote, so the path written around it is not
      \<^verbatim>\<open>.//Tag[@id="ident"]\<close>.\<close>
  "path_broken ident = (CHR 0x22 \<in> set ident)"

definition findall_by_id :: "string \<Rightarrow> string \<Rightarrow> element \<Rightarrow> element list" where
  \<comment> \<open>the path \<^verbatim>\<open>.//Tag[@id="ident"]\<close>, for an identifier without a double quote\<close>
  "findall_by_id t ident e =
     filter (\<lambda>d. attrib d ''id'' = Some ident) (findall_descendant t e)"

definition findall_concept_refs :: "element \<Rightarrow> element list" where
  \<comment> \<open>the path \<^verbatim>\<open>.//KeyFamily//*[@conceptRef]\<close>\<close>
  "findall_concept_refs e =
     filter (\<lambda>d. attrib d ''conceptRef'' \<noteq> None)
       (concat (map descendants (findall_descendant ''KeyFamily'' e)))"

definition element_truthy :: "element option \<Rightarrow> bool" where
  \<comment> \<open>The truth value \<^verbatim>\<open>if code_list:\<close> tests: \<^verbatim>\<open>None\<close> is false, and an element is
      true exactly when it has a child element (its \<^verbatim>\<open>__len__\<close>).\<close>
  "element_truthy r = (case r of None \<Rightarrow> False | Some e \<Rightarrow> children e \<noteq> [])"

section \<open>The structure document loader\<close>

definition remove_xml_namespace :: "string \<Rightarrow> string" where
  "remove_xml_namespace tag_name =
     (if CHR ''}'' \<in> set tag_name then py_split1 CHR ''}'' tag_name ! 1 else tag_name)"

fun load_xml :: "element \<Rightarrow> element" where
  \<comment> \<open>The argument is the tree as the parser builds it, tags in the form
      \<^verbatim>\<open>{namespace}Name\<close>; \<^verbatim>\<open>iterparse\<close> hands every element of it to the loop once.\<close>
  "load_xml (Element t a x cs) = Element (remove_xml_namespace t) a x (map load_xml cs)"

section \<open>The metadata model\<close>

record SDMXMetadata =
  root :: element
  primary_measure_code :: string
  concept_codes :: "string list"
  concept_codelist_keys :: "string list"
  concept_code_to_codelist_key :: "string \<rightharpoonup> string"
  codelist_key_to_concept_code :: "string \<rightharpoonup> string"
  concept_code_to_name :: "string \<rightharpoonup> string option"
  name_to_concept_code :: "string option \<rightharpoonup> string"
  code_levels :: "string \<rightharpoonup> (string \<rightharpoonup> string option)"

definition new_self :: "element \<Rightarrow> SDMXMetadata" where
  \<comment> \<open>The object when \<^verbatim>\<open>__init__\<close> has stored the root. Every other attribute is
      assigned by the loading methods before anything reads it.\<close>
  "new_self r =
     \<lparr>root = r, primary_measure_code = [], concept_codes = [], concept_codelist_keys = [],
      concept_code_to_codelist_key = Map.empty, codelist_key_to_concept_code = Map.empty,
      concept_code_to_name = Map.empty, name_to_concept_code = Map.empty,
      code_levels = Map.empty\<rparr>"

subsection \<open>Construction\<close>

definition load_primary_measure :: "SDMXMetadata \<Rightarrow> py_error + SDMXMetadata" where
  "load_primary_measure self =
     (case py_first (findall_descendant ''PrimaryMeasure'' (root self)) of
        None \<Rightarrow> Inl AttributeError
      | Some pm \<Rightarrow>
          (case attrib pm ''conceptRef'' of
             None \<Rightarrow> Inl KeyError
           | Some code \<Rightarrow> Inr (self\<lparr>primary_measure_code := code\<rparr>)))"

fun load_concept_refs :: "element list \<Rightarrow> SDMXMetadata \<Rightarrow> py_error + SDMXMetadata" where
  \<comment> \<open>the first loop of \<^verbatim>\<open>__load_concepts\<close>\<close>
  "load_concept_refs [] self = Inr self"
| "load_concept_refs (concept # rest) self =
     (case attrib concept ''conceptRef'' of
        None \<Rightarrow> Inl KeyError
      | Some code \<Rightarrow>
          (let self1 = self\<lparr>concept_codes := concept_codes self @ [code]\<rparr>
           in case attrib concept ''codelist'' of
                None \<Rightarrow> load_concept_refs rest self1
              | Some codelist_key \<Rightarrow>
                  load_concept_refs rest
                    (self1\<lparr>concept_codelist_keys := concept_codelist_keys self1 @ [codelist_key],
                       concept_code_to_codelist_key :=
                         (concept_code_to_codelist_key self1)(code \<mapsto> codelist_key),
                       codelist_key_to_concept_code :=
                         (codelist_key_to_concept_code self1)(codelist_key \<mapsto> code)\<rparr>)))"

definition concept_name :: "element \<Rightarrow> string \<Rightarrow> py_error + string option" where
  \<comment> \<open>\<^verbatim>\<open>root.find('.//Concept[@id="%s"]' % code).find('Name').text\<close>\<close>
  "concept_name r code =
     (if path_broken code then Inl SyntaxError
      else case py_first (findall_by_id ''Concept'' code r) of
             None \<Rightarrow> Inl AttributeError
           | Some concept \<Rightarrow>
               (case py_first (findall_child ''Name'' concept) of
                  None \<Rightarrow> Inl AttributeError
                | Some name_element \<Rightarrow> Inr (etext name_element)))"

fun load_concept_names :: "string list \<Rightarrow> SDMXMetadata \<Rightarrow> py_error + SDMXMetadata" where
  \<comment> \<open>the second loop of \<^verbatim>\<open>__load_concepts\<close>\<close>
  "load_concept_names [] self = Inr self"
| "load_concept_names (code # rest) self =
     (case concept_name (root self) code of
        Inl e \<Rightarrow> Inl e
      | Inr name \<Rightarrow>
          load_concept_names rest
            (self\<lparr>concept_code_to_name := (concept_code_to_name self)(code \<mapsto> name),
                   name_to_concept_code := (name_to_concept_code self)(name \<mapsto> code)\<rparr>))"

definition load_concepts :: "SDMXMetadata \<Rightarrow> py_error + SDMXMetadata" where
  "load_concepts self =
     (case load_concept_refs (findall_concept_refs (root self))
             (self\<lparr>concept_codes := [], concept_codelist_keys := [],
                    concept_code_to_codelist_key := Map.empty,
                    codelist_key_to_concept_code := Map.empty,
                    concept_code_to_name := Map.empty,
                    name_to_concept_code := Map.empty\<rparr>) of
        Inl e \<Rightarrow> Inl e
      | Inr self1 \<Rightarrow> load_concept_names (concept_codes self1) self1)"

fun load_levels :: "element list \<Rightarrow> string \<Rightarrow> SDMXMetadata \<Rightarrow> py_error + SDMXMetadata" where
  \<comment> \<open>the loop over the \<^verbatim>\<open>Code\<close> children of one code list\<close>
  "load_levels [] concept_code self = Inr self"
| "load_levels (level # rest) concept_code self =
     (case attrib level ''value'' of
        None \<Rightarrow> Inl KeyError
      | Some code_value \<Rightarrow>
          (case py_first (findall_child ''Description'' level) of
             None \<Rightarrow> Inl AttributeError
           | Some description_element \<Rightarrow>
               (case code_levels self concept_code of
                  None \<Rightarrow> Inl KeyError
                | Some levels \<Rightarrow>
                    load_levels rest concept_code
                      (self\<lparr>code_levels :=
                         (code_levels self)
                           (concept_code \<mapsto> levels(code_value \<mapsto> etext description_element))\<rparr>))))"

definition find_code_list :: "element \<Rightarrow> string \<Rightarrow> element option" where
  \<comment> \<open>\<^verbatim>\<open>root.find('.//CodeList[@id="%s"]' % codelist_key)\<close>, for a key whose path is
      not broken\<close>
  "find_code_list r codelist_key = py_first (findall_by_id ''CodeList'' codelist_key r)"

fun load_code_lists :: "string list \<Rightarrow> SDMXMetadata \<Rightarrow> py_error + SDMXMetadata" where
  \<comment> \<open>the loop of \<^verbatim>\<open>__load_code_levels\<close> over the code list keys\<close>
  "load_code_lists [] self = Inr self"
| "load_code_lists (codelist_key # rest) self =
     (if path_broken codelist_key then Inl SyntaxError
      else
        let code_list = find_code_list (root self) codelist_key
        in if element_truthy code_list
           then (case codelist_key_to_concept_code self codelist_key of
                   None \<Rightarrow> Inl KeyError
                 | Some concept_code \<Rightarrow>
                     (case load_levels (findall_child ''Code'' (the code_list)) concept_code
                             (self\<lparr>code_levels :=
                                     (code_levels self)(concept_code \<mapsto> Map.empty)\<rparr>) of
                        Inl e \<Rightarrow> Inl e
                      | Inr self1 \<Rightarrow> load_code_lists rest self1))
           else load_code_lists rest self)"

definition load_code_levels :: "SDMXMetadata \<Rightarrow> py_error + SDMXMetadata" where
  "load_code_levels self =
     load_code_lists (concept_codelist_keys self) (self\<lparr>code_levels := Map.empty\<rparr>)"

definition SDMXMetadata_init :: "element \<Rightarrow> py_error + SDMXMetadata" where
  \<comment> \<open>\<^verbatim>\<open>__init__\<close>, from the tree the parser built for the file at the given path. An
      exception leaves the constructor, so no object results. The \<^verbatim>\<open>pprint\<close> and
      \<^verbatim>\<open>print\<close> calls only write to standard output.\<close>
  "SDMXMetadata_init parsed =
     (case load_primary_measure (new_self (load_xml parsed)) of
        Inl e \<Rightarrow> Inl e
      | Inr self1 \<Rightarrow>
          (case load_concepts self1 of
             Inl e \<Rightarrow> Inl e
           | Inr self2 \<Rightarrow> load_code_levels self2))"

subsection \<open>Queries\<close>

definition is_primary_measure_code :: "SDMXMetadata \<Rightarrow> string \<Rightarrow> bool" where
  "is_primary_measure_code self code = (code = primary_measure_code self)"

definition codes :: "SDMXMetadata \<Rightarrow> string list" where
  "codes self = concept_codes self"

definition name_by_code :: "SDMXMetadata \<Rightarrow> string \<Rightarrow> py_error + string option" where
  "name_by_code self code =
     (case concept_code_to_name self code of None \<Rightarrow> Inl KeyError | Some name \<Rightarrow> Inr name)"

definition code_by_name :: "SDMXMetadata \<Rightarrow> string option \<Rightarrow> py_error + string" where
  "code_by_name self name =
     (case name_to_concept_code self name of None \<Rightarrow> Inl KeyError | Some code \<Rightarrow> Inr code)"

definition code_levels_by_code ::
  "SDMXMetadata \<Rightarrow> string \<Rightarrow> py_error + (string \<rightharpoonup> string option) option" where
  \<comment> \<open>\<open>Inr None\<close> is the \<^verbatim>\<open>None\<close> the method returns, \<open>Inr (Some d)\<close> a dictionary.\<close>
  "code_levels_by_code self code =
     (if is_primary_measure_code self code then Inr None
      else case code_levels self code of None \<Rightarrow> Inl KeyError | Some levels \<Rightarrow> Inr (Some levels))"

definition py_falsy :: "string option \<Rightarrow> bool" where
  \<comment> \<open>\<^verbatim>\<open>not code_level\<close>, for a coded value that is \<^verbatim>\<open>None\<close> or a string\<close>
  "py_falsy v = (case v of None \<Rightarrow> True | Some s \<Rightarrow> s = [])"

definition description_by_code_level ::
  "SDMXMetadata \<Rightarrow> string \<Rightarrow> string option \<Rightarrow> bool \<Rightarrow> py_error + string option" where
  "description_by_code_level self code code_level trim =
     (if py_falsy code_level then Inr code_level
      else if is_primary_measure_code self code then Inr code_level
      else case code_levels self code of
             None \<Rightarrow> Inl KeyError
           | Some levels \<Rightarrow>
               (case levels (the code_level) of
                  None \<Rightarrow> Inl KeyError
                | Some description \<Rightarrow>
                    if trim
                    then (case description of
                            None \<Rightarrow> Inl AttributeError
                          | Some d \<Rightarrow> Inr (Some (py_strip d)))
                    else Inr description))"

section \<open>Notions used in the statements\<close>

definition same_concepts :: "SDMXMetadata \<Rightarrow> SDMXMetadata \<Rightarrow> bool" where
  \<comment> \<open>Two states of the object that differ in \<open>code_levels\<close> at most.\<close>
  "same_concepts a b =
     (root b = root a \<and> primary_measure_code b = primary_measure_code a \<and>
      concept_codes b = concept_codes a \<and>
      concept_codelist_keys b = concept_codelist_keys a \<and>
      concept_code_to_codelist_key b = concept_code_to_codelist_key a \<and>
      codelist_key_to_concept_code b = codelist_key_to_concept_code a \<and>
      concept_code_to_name b = concept_code_to_name a \<and>
      name_to_concept_code b = name_to_concept_code a)"

definition names_consistent :: "element \<Rightarrow> SDMXMetadata \<Rightarrow> bool" where
  \<comment> \<open>The invariant of the loop over the concept names: a stored name is the one the
      document gives the code, it has an entry in the reverse dictionary, and every
      entry of the reverse dictionary points at a code that carries that name.\<close>
  "names_consistent r self =
     ((\<forall>c n. concept_code_to_name self c = Some n \<longrightarrow>
          concept_name r c = Inr n \<and> name_to_concept_code self n \<noteq> None) \<and>
      (\<forall>n c. name_to_concept_code self n = Some c \<longrightarrow> concept_code_to_name self c = Some n))"

definition refs_consistent :: "SDMXMetadata \<Rightarrow> bool" where
  \<comment> \<open>The invariant of the loop over the concept references: the owner of a code list
      key has a code list key, a code with a code list key is in the list of codes, and
      the listed keys are the keys of the reverse dictionary.\<close>
  "refs_consistent self =
     ((\<forall>k c. codelist_key_to_concept_code self k = Some c \<longrightarrow>
          concept_code_to_codelist_key self c \<noteq> None) \<and>
      (\<forall>c. concept_code_to_codelist_key self c \<noteq> None \<longrightarrow> c \<in> set (concept_codes self)) \<and>
      (\<forall>k. (k \<in> set (concept_codelist_keys self)) = (codelist_key_to_concept_code self k \<noteq> None)))"





definition level_pairs :: "element list \<Rightarrow> (string \<times> string option) list" where
  \<comment> \<open>The pairs of coded value and description that a list of \<open>Code\<close> elements
      records, in document order.\<close>
  "level_pairs ls =
     List.map_filter
       (\<lambda>level. case attrib level ''value'' of
                   None \<Rightarrow> None
                 | Some v \<Rightarrow>
                     (case py_first (findall_child ''Description'' level) of
                        None \<Rightarrow> None
                      | Some d \<Rightarrow> Some (v, etext d)))
       ls"

definition code_list_pairs :: "element \<Rightarrow> (string \<times> string option) list" where
  \<comment> \<open>The pairs recorded by the \<open>Code\<close> children of a \<open>CodeList\<close> element.\<close>
  "code_list_pairs code_list = level_pairs (findall_child ''Code'' code_list)"

definition owns_usable :: "SDMXMetadata \<Rightarrow> string \<Rightarrow> string \<Rightarrow> bool" where
  \<comment> \<open>The loop over the code list keys stores code levels for the concept \<open>c\<close> when
      it comes to the key \<open>k\<close>.\<close>
  "owns_usable self c k =
     (codelist_key_to_concept_code self k = Some c \<and>
      element_truthy (find_code_list (root self) k))"

definition last_owner_listed :: "SDMXMetadata \<Rightarrow> bool" where
  \<comment> \<open>An invariant of the loop over the concept references: when a concept is the owner
      of its own code list key, that key is the last listed key the concept owns.\<close>
  "last_owner_listed self =
     (\<forall>c k. concept_code_to_codelist_key self c = Some k \<and>
            codelist_key_to_concept_code self k = Some c \<longrightarrow>
          List.find (\<lambda>k'. codelist_key_to_concept_code self k' = Some c)
            (rev (concept_codelist_keys self)) = Some k)"

section \<open>Example documents\<close>

text \<open>
  The structure document of the census example: \<open>SEX\<close> and \<open>AGE\<close> with code lists,
  \<open>TIME\<close> without one, and the primary measure \<open>OBS_VALUE\<close>. Tags carry a namespace, as
  the parser delivers them.
\<close>

definition doc_census :: element where
  "doc_census =
     Element ''{urn:sdmx}Structure'' Map.empty None
       [Element ''{urn:sdmx}CodeLists'' Map.empty None
          [Element ''{urn:sdmx}CodeList'' [''id'' \<mapsto> ''CL_SEX''] None
             [Element ''{urn:sdmx}Name'' Map.empty (Some ''Sex codes'') [],
              Element ''{urn:sdmx}Code'' [''value'' \<mapsto> ''1''] None
                [Element ''{urn:sdmx}Description'' Map.empty (Some ''Total'') []],
              Element ''{urn:sdmx}Code'' [''value'' \<mapsto> ''2''] None
                [Element ''{urn:sdmx}Description'' Map.empty (Some ''Male'') []],
              Element ''{urn:sdmx}Code'' [''value'' \<mapsto> ''3''] None
                [Element ''{urn:sdmx}Description'' Map.empty (Some ''Female'') []]],
           Element ''{urn:sdmx}CodeList'' [''id'' \<mapsto> ''CL_AGE''] None
             [Element ''{urn:sdmx}Code'' [''value'' \<mapsto> ''01''] None
                [Element ''{urn:sdmx}Description'' Map.empty
                   (Some ''   75 years and over'') []]]],
        Element ''{urn:sdmx}Concepts'' Map.empty None
          [Element ''{urn:sdmx}Concept'' [''id'' \<mapsto> ''SEX''] None
             [Element ''{urn:sdmx}Name'' Map.empty (Some ''Sex'') []],
           Element ''{urn:sdmx}Concept'' [''id'' \<mapsto> ''AGE''] None
             [Element ''{urn:sdmx}Name'' Map.empty (Some ''Age'') []],
           Element ''{urn:sdmx}Concept'' [''id'' \<mapsto> ''TIME''] None
             [Element ''{urn:sdmx}Name'' Map.empty (Some ''Time'') []],
           Element ''{urn:sdmx}Concept'' [''id'' \<mapsto> ''OBS_VALUE''] None
             [Element ''{urn:sdmx}Name'' Map.empty (Some ''Observation'') []]],
        Element ''{urn:sdmx}KeyFamilies'' Map.empty None
          [Element ''{urn:sdmx}KeyFamily'' [''id'' \<mapsto> ''CENSUS''] None
             [Element ''{urn:sdmx}Components'' Map.empty None
                [Element ''{urn:sdmx}Dimension''
                   [''conceptRef'' \<mapsto> ''SEX'', ''codelist'' \<mapsto> ''CL_SEX''] None [],
                 Element ''{urn:sdmx}Dimension''
                   [''conceptRef'' \<mapsto> ''AGE'', ''codelist'' \<mapsto> ''CL_AGE''] None [],
                 Element ''{urn:sdmx}TimeDimension'' [''conceptRef'' \<mapsto> ''TIME''] None [],
                 Element ''{urn:sdmx}PrimaryMeasure''
                   [''conceptRef'' \<mapsto> ''OBS_VALUE''] None []]]]]"

definition census_model :: SDMXMetadata where
  \<comment> \<open>the object the constructor builds from \<open>doc_census\<close>\<close>
  "census_model =
     \<lparr>root = load_xml doc_census,
      primary_measure_code = ''OBS_VALUE'',
      concept_codes = [''SEX'', ''AGE'', ''TIME'', ''OBS_VALUE''],
      concept_codelist_keys = [''CL_SEX'', ''CL_AGE''],
      concept_code_to_codelist_key = [''SEX'' \<mapsto> ''CL_SEX'', ''AGE'' \<mapsto> ''CL_AGE''],
      codelist_key_to_concept_code = [''CL_SEX'' \<mapsto> ''SEX'', ''CL_AGE'' \<mapsto> ''AGE''],
      concept_code_to_name =
        [''SEX'' \<mapsto> Some ''Sex'', ''AGE'' \<mapsto> Some ''Age'', ''TIME'' \<mapsto> Some ''Time'',
         ''OBS_VALUE'' \<mapsto> Some ''Observation''],
      name_to_concept_code =
        [Some ''Sex'' \<mapsto> ''SEX'', Some ''Age'' \<mapsto> ''AGE'', Some ''Time'' \<mapsto> ''TIME'',
         Some ''Observation'' \<mapsto> ''OBS_VALUE''],
      code_levels =
        [''SEX'' \<mapsto>
           [''1'' \<mapsto> Some ''Total'', ''2'' \<mapsto> Some ''Male'', ''3'' \<mapsto> Some ''Female''],
         ''AGE'' \<mapsto> [''01'' \<mapsto> Some ''   75 years and over'']]\<rparr>"

text \<open>
  Two dimensions that share one code list, as a reference area and a counterpart area
  do; both concepts carry the display name \<open>Area\<close>.
\<close>

definition doc_shared :: element where
  "doc_shared =
     Element ''Structure'' Map.empty None
       [Element ''CodeList'' [''id'' \<mapsto> ''CL_AREA''] None
          [Element ''Code'' [''value'' \<mapsto> ''1''] None
             [Element ''Description'' Map.empty (Some ''North'') []]],
        Element ''Concept'' [''id'' \<mapsto> ''REF''] None
          [Element ''Name'' Map.empty (Some ''Area'') []],
        Element ''Concept'' [''id'' \<mapsto> ''CPT''] None
          [Element ''Name'' Map.empty (Some ''Area'') []],
        Element ''Concept'' [''id'' \<mapsto> ''OBS''] None
          [Element ''Name'' Map.empty (Some ''Value'') []],
        Element ''KeyFamily'' Map.empty None
          [Element ''Dimension''
             [''conceptRef'' \<mapsto> ''REF'', ''codelist'' \<mapsto> ''CL_AREA''] None [],
           Element ''Dimension''
             [''conceptRef'' \<mapsto> ''CPT'', ''codelist'' \<mapsto> ''CL_AREA''] None [],
           Element ''PrimaryMeasure'' [''conceptRef'' \<mapsto> ''OBS''] None []]]"

definition shared_model :: SDMXMetadata where
  \<comment> \<open>the object the constructor builds from \<open>doc_shared\<close>\<close>
  "shared_model =
     \<lparr>root = load_xml doc_shared,
      primary_measure_code = ''OBS'',
      concept_codes = [''REF'', ''CPT'', ''OBS''],
      concept_codelist_keys = [''CL_AREA'', ''CL_AREA''],
      concept_code_to_codelist_key = [''REF'' \<mapsto> ''CL_AREA'', ''CPT'' \<mapsto> ''CL_AREA''],
      codelist_key_to_concept_code = [''CL_AREA'' \<mapsto> ''CPT''],
      concept_code_to_name =
        [''REF'' \<mapsto> Some ''Area'', ''CPT'' \<mapsto> Some ''Area'', ''OBS'' \<mapsto> Some ''Value''],
      name_to_concept_code = [Some ''Area'' \<mapsto> ''CPT'', Some ''Value'' \<mapsto> ''OBS''],
      code_levels = [''CPT'' \<mapsto> [''1'' \<mapsto> Some ''North'']]\<rparr>"



text \<open>
  Three concepts that name a code list: the code list of \<open>GEO\<close> has a \<open>Name\<close> child and
  no \<open>Code\<close> child, the code list of \<open>DUR\<close> has no child at all, and the code list of
  \<open>REG\<close> is not in the document.
\<close>

definition doc_sparse :: element where
  "doc_sparse =
     Element ''Structure'' Map.empty None
       [Element ''CodeList'' [''id'' \<mapsto> ''CL_GEO''] None
          [Element ''Name'' Map.empty (Some ''Geography'') []],
        Element ''CodeList'' [''id'' \<mapsto> ''CL_DUR''] None [],
        Element ''Concept'' [''id'' \<mapsto> ''GEO''] None
          [Element ''Name'' Map.empty (Some ''Geography'') []],
        Element ''Concept'' [''id'' \<mapsto> ''DUR''] None
          [Element ''Name'' Map.empty (Some ''Duration'') []],
        Element ''Concept'' [''id'' \<mapsto> ''REG''] None
          [Element ''Name'' Map.empty (Some ''Region'') []],
        Element ''Concept'' [''id'' \<mapsto> ''OBS''] None
          [Element ''Name'' Map.empty (Some ''Value'') []],
        Element ''KeyFamily'' Map.empty None
          [Element ''Dimension''
             [''conceptRef'' \<mapsto> ''GEO'', ''codelist'' \<mapsto> ''CL_GEO''] None [],
           Element ''Dimension''
             [''conceptRef'' \<mapsto> ''DUR'', ''codelist'' \<mapsto> ''CL_DUR''] None [],
           Element ''Dimension''
             [''conceptRef'' \<mapsto> ''REG'', ''codelist'' \<mapsto> ''CL_REG''] None [],
           Element ''PrimaryMeasure'' [''conceptRef'' \<mapsto> ''OBS''] None []]]"

definition sparse_model :: SDMXMetadata where
  \<comment> \<open>the object the constructor builds from \<open>doc_sparse\<close>\<close>
  "sparse_model =
     \<lparr>root = load_xml doc_sparse,
      primary_measure_code = ''OBS'',
      concept_codes = [''GEO'', ''DUR'', ''REG'', ''OBS''],
      concept_codelist_keys = [''CL_GEO'', ''CL_DUR'', ''CL_REG''],
      concept_code_to_codelist_key =
        [''GEO'' \<mapsto> ''CL_GEO'', ''DUR'' \<mapsto> ''CL_DUR'', ''REG'' \<mapsto> ''CL_REG''],
      codelist_key_to_concept_code =
        [''CL_GEO'' \<mapsto> ''GEO'', ''CL_DUR'' \<mapsto> ''DUR'', ''CL_REG'' \<mapsto> ''REG''],
      concept_code_to_name =
        [''GEO'' \<mapsto> Some ''Geography'', ''DUR'' \<mapsto> Some ''Duration'',
         ''REG'' \<mapsto> Some ''Region'', ''OBS'' \<mapsto> Some ''Value''],
      name_to_concept_code =
        [Some ''Geography'' \<mapsto> ''GEO'', Some ''Duration'' \<mapsto> ''DUR'',
         Some ''Region'' \<mapsto> ''REG'', Some ''Value'' \<mapsto> ''OBS''],
      code_levels = [''GEO'' \<mapsto> Map.empty]\<rparr>"

text \<open>A document without a primary measure, and with a tag that holds two braces.\<close>

definition doc_tiny :: element where
  "doc_tiny =
     Element ''{urn:sdmx}Structure'' Map.empty None
       [Element ''Concept'' [''id'' \<mapsto> ''SEX''] None
          [Element ''{urn:sdmx}Name'' Map.empty (Some ''Sex'') []],
        Element ''a}b}Plain'' Map.empty None []]"


section \<open>The example documents, constructed\<close>

lemmas construction_defs =
  SDMXMetadata_init_def load_primary_measure_def new_self_def load_concepts_def
  load_code_levels_def findall_descendant_def findall_child_def findall_by_id_def
  findall_concept_refs_def descendants_def element_truthy_def remove_xml_namespace_def
  py_split1_def py_first_def concept_name_def find_code_list_def path_broken_def

lemma census_init: "SDMXMetadata_init doc_census = Inr census_model"
  by (simp add: construction_defs doc_census_def census_model_def)

lemma shared_init: "SDMXMetadata_init doc_shared = Inr shared_model"
  by (simp add: construction_defs doc_shared_def shared_model_def)


lemma sparse_init: "SDMXMetadata_init doc_sparse = Inr sparse_model"
  by (simp add: construction_defs doc_sparse_def sparse_model_def)

section \<open>The loader\<close>

lemma remove_xml_namespace_prefix:
  "CHR ''}'' \<notin> set ns \<Longrightarrow> remove_xml_namespace (ns @ CHR ''}'' # name) = name"
proof -
  assume "CHR ''}'' \<notin> set ns"
  then have "dropWhile (\<lambda>c. c \<noteq> CHR ''}'') (ns @ CHR ''}'' # name) = CHR ''}'' # name"
    by (induction ns) auto
  then show ?thesis
    by (simp add: remove_xml_namespace_def py_split1_def)
qed

lemma remove_xml_namespace_plain:
  "CHR ''}'' \<notin> set t \<Longrightarrow> remove_xml_namespace t = t"
  by (simp add: remove_xml_namespace_def)

lemma iter_load_xml: "iter (load_xml e) = map load_xml (iter e)"
proof (induction e)
  case (Element t a x cs)
  have "concat (map (iter \<circ> load_xml) cs) = concat (map (map load_xml \<circ> iter) cs)"
    using Element.IH by (intro arg_cong [where f = concat] map_cong) auto
  then show ?case by (simp add: map_concat)
qed

lemma tag_load_xml: "tag (load_xml e) = remove_xml_namespace (tag e)"
  by (cases e) simp

lemma attrib_load_xml: "attrib (load_xml e) = attrib e"
  by (cases e) simp

lemma etext_load_xml: "etext (load_xml e) = etext e"
  by (cases e) simp

lemma children_load_xml: "children (load_xml e) = map load_xml (children e)"
  by (cases e) simp

text \<open>
  Claim C8. The loader returns the tree it was given with the same shape, attributes and
  text, and with every element's tag passed through \<open>remove_xml_namespace\<close>: listed in
  document order, the tags of the result are the stripped tags of the parsed tree. A
  tag \<open>ns}name\<close> whose part \<open>ns\<close> holds no closing brace becomes \<open>name\<close>, so everything
  up to and including the first closing brace is removed, and a tag without a closing
  brace is left as it is.
\<close>

theorem load_xml_strips_namespaces:
  "(CHR ''}'' \<notin> set ns \<longrightarrow> remove_xml_namespace (ns @ CHR ''}'' # name) = name) \<and>
   (CHR ''}'' \<notin> set t \<longrightarrow> remove_xml_namespace t = t) \<and>
   children (load_xml e) = map load_xml (children e) \<and>
   map tag (iter (load_xml e)) = map (\<lambda>d. remove_xml_namespace (tag d)) (iter e) \<and>
   map attrib (iter (load_xml e)) = map attrib (iter e) \<and>
   map etext (iter (load_xml e)) = map etext (iter e) \<and>
   map (\<lambda>d. length (children d)) (iter (load_xml e)) =
     map (\<lambda>d. length (children d)) (iter e)"
  by (simp add: remove_xml_namespace_prefix remove_xml_namespace_plain iter_load_xml
      tag_load_xml attrib_load_xml etext_load_xml children_load_xml comp_def)

theorem load_xml_strips_namespaces_witness:
  "CHR ''}'' \<notin> set ''{urn:sdmx'' \<and>
   remove_xml_namespace ''{urn:sdmx}Concept'' = ''Concept'' \<and>
   CHR ''}'' \<notin> set ''Concept'' \<and> remove_xml_namespace ''Concept'' = ''Concept'' \<and>
   map tag (iter (load_xml doc_tiny)) = [''Structure'', ''Concept'', ''Name'', ''b}Plain'']"
  using load_xml_strips_namespaces [of "''{urn:sdmx''" "''Concept''" "''Concept''" doc_tiny]
  by (simp add: doc_tiny_def remove_xml_namespace_def py_split1_def)

section \<open>Construction\<close>

subsection \<open>The primary measure\<close>






subsection \<open>What each loop leaves unchanged\<close>

lemma load_levels_frame:
  "load_levels ls cc self = Inr self' \<Longrightarrow> same_concepts self self'"
proof (induction ls arbitrary: self)
  case Nil
  then show ?case by (simp add: same_concepts_def)
next
  case (Cons l ls)
  then show ?case
    by (fastforce simp: same_concepts_def split: option.splits)
qed

lemma load_code_lists_step:
  assumes "load_code_lists (k # ks) self = Inr self'"
    and "element_truthy (find_code_list (root self) k)"
  obtains cc self1 where
    "codelist_key_to_concept_code self k = Some cc"
    "load_levels
       (findall_child ''Code'' (the (find_code_list (root self) k)))
       cc (self\<lparr>code_levels := (code_levels self)(cc \<mapsto> Map.empty)\<rparr>) = Inr self1"
    "load_code_lists ks self1 = Inr self'"
  using assms by (auto simp: Let_def split: option.splits sum.splits if_splits)

lemma load_code_lists_frame:
  "load_code_lists ks self = Inr self' \<Longrightarrow> same_concepts self self'"
proof (induction ks arbitrary: self)
  case Nil
  then show ?case by (simp add: same_concepts_def)
next
  case (Cons k ks)
  show ?case
  proof (cases "element_truthy (find_code_list (root self) k)")
    case False
    with Cons show ?thesis by (simp add: Let_def split: if_splits)
  next
    case True
    from Cons.prems True obtain cc self1 where
      l: "load_levels
            (findall_child ''Code'' (the (find_code_list (root self) k)))
            cc (self\<lparr>code_levels := (code_levels self)(cc \<mapsto> Map.empty)\<rparr>) = Inr self1"
      and r: "load_code_lists ks self1 = Inr self'"
      by (rule load_code_lists_step)
    from load_levels_frame [OF l] Cons.IH [OF r] show ?thesis
      by (simp add: same_concepts_def)
  qed
qed

lemma load_concept_names_step:
  assumes "load_concept_names (c # cs) self = Inr self'"
  obtains n where
    "concept_name (root self) c = Inr n"
    "load_concept_names cs
       (self\<lparr>concept_code_to_name := (concept_code_to_name self)(c \<mapsto> n),
              name_to_concept_code := (name_to_concept_code self)(n \<mapsto> c)\<rparr>) = Inr self'"
  using assms by (auto split: sum.splits)

lemma load_concept_names_frame:
  "load_concept_names cs self = Inr self' \<Longrightarrow>
   root self' = root self \<and> primary_measure_code self' = primary_measure_code self \<and>
   concept_codes self' = concept_codes self \<and>
   concept_codelist_keys self' = concept_codelist_keys self \<and>
   concept_code_to_codelist_key self' = concept_code_to_codelist_key self \<and>
   codelist_key_to_concept_code self' = codelist_key_to_concept_code self \<and>
   code_levels self' = code_levels self"
proof (induction cs arbitrary: self)
  case Nil
  then show ?case by simp
next
  case (Cons c cs)
  then show ?case by (fastforce split: sum.splits)
qed

lemma load_concept_refs_frame:
  "load_concept_refs refs self = Inr self' \<Longrightarrow>
   root self' = root self \<and> primary_measure_code self' = primary_measure_code self \<and>
   concept_code_to_name self' = concept_code_to_name self \<and>
   name_to_concept_code self' = name_to_concept_code self \<and>
   code_levels self' = code_levels self"
proof (induction refs arbitrary: self)
  case Nil
  then show ?case by simp
next
  case (Cons e refs)
  then show ?case by (fastforce simp: Let_def split: option.splits)
qed

lemma init_stages:
  assumes "SDMXMetadata_init parsed = Inr m"
  obtains s1 s2 s3 where
    "load_primary_measure (new_self (load_xml parsed)) = Inr s1"
    "load_concept_refs (findall_concept_refs (root s1))
       (s1\<lparr>concept_codes := [], concept_codelist_keys := [],
            concept_code_to_codelist_key := Map.empty,
            codelist_key_to_concept_code := Map.empty,
            concept_code_to_name := Map.empty,
            name_to_concept_code := Map.empty\<rparr>) = Inr s2"
    "load_concept_names (concept_codes s2) s2 = Inr s3"
    "load_code_lists (concept_codelist_keys s3) (s3\<lparr>code_levels := Map.empty\<rparr>) = Inr m"
  using assms
  by (auto simp: SDMXMetadata_init_def load_concepts_def load_code_levels_def
      split: sum.splits)

subsection \<open>The concept names\<close>

lemma load_concept_names_consistent:
  "load_concept_names cs self = Inr self' \<Longrightarrow> names_consistent (root self) self \<Longrightarrow>
   names_consistent (root self) self'"
proof (induction cs arbitrary: self)
  case Nil
  then show ?case by simp
next
  case (Cons c cs)
  from Cons.prems(1) obtain n where n: "concept_name (root self) c = Inr n"
    and rest: "load_concept_names cs
       (self\<lparr>concept_code_to_name := (concept_code_to_name self)(c \<mapsto> n),
              name_to_concept_code := (name_to_concept_code self)(n \<mapsto> c)\<rparr>) = Inr self'"
    by (rule load_concept_names_step)
  let ?s = "self\<lparr>concept_code_to_name := (concept_code_to_name self)(c \<mapsto> n),
              name_to_concept_code := (name_to_concept_code self)(n \<mapsto> c)\<rparr>"
  have "names_consistent (root ?s) ?s"
    using Cons.prems(2) n unfolding names_consistent_def
    by (auto split: if_splits)
  from Cons.IH [OF rest this] show ?case by simp
qed

lemma load_concept_names_dom:
  "load_concept_names cs self = Inr self' \<Longrightarrow>
   (concept_code_to_name self' x \<noteq> None) =
     (concept_code_to_name self x \<noteq> None \<or> x \<in> set cs)"
proof (induction cs arbitrary: self)
  case Nil
  then show ?case by simp
next
  case (Cons c cs)
  from Cons.prems obtain n where
    rest: "load_concept_names cs
       (self\<lparr>concept_code_to_name := (concept_code_to_name self)(c \<mapsto> n),
              name_to_concept_code := (name_to_concept_code self)(n \<mapsto> c)\<rparr>) = Inr self'"
    by (rule load_concept_names_step)
  from Cons.IH [OF rest] show ?case by auto
qed

lemma init_names:
  assumes "SDMXMetadata_init parsed = Inr m"
  shows "names_consistent (root m) m \<and>
    (\<forall>x. (concept_code_to_name m x \<noteq> None) = (x \<in> set (concept_codes m)))"
proof -
  from assms obtain s1 s2 s3 where
    b: "load_concept_refs (findall_concept_refs (root s1))
       (s1\<lparr>concept_codes := [], concept_codelist_keys := [],
            concept_code_to_codelist_key := Map.empty,
            codelist_key_to_concept_code := Map.empty,
            concept_code_to_name := Map.empty,
            name_to_concept_code := Map.empty\<rparr>) = Inr s2"
    and c: "load_concept_names (concept_codes s2) s2 = Inr s3"
    and d: "load_code_lists (concept_codelist_keys s3) (s3\<lparr>code_levels := Map.empty\<rparr>) = Inr m"
    by (rule init_stages)
  note fb = load_concept_refs_frame [OF b]
  note fc = load_concept_names_frame [OF c]
  note fd = load_code_lists_frame [OF d]
  have "names_consistent (root s2) s2"
    using fb by (simp add: names_consistent_def)
  from load_concept_names_consistent [OF c this]
  have "names_consistent (root s2) s3" .
  then have 1: "names_consistent (root m) m"
    using fc fd by (simp add: names_consistent_def same_concepts_def)
  have "\<forall>x. (concept_code_to_name s3 x \<noteq> None) = (x \<in> set (concept_codes s2))"
    using load_concept_names_dom [OF c] fb by simp
  then have 2: "\<forall>x. (concept_code_to_name m x \<noteq> None) = (x \<in> set (concept_codes m))"
    using fc fd by (simp add: same_concepts_def)
  from 1 2 show ?thesis ..
qed

text \<open>
  Claim C5. For a constructed object and a concept code \<open>c\<close> of its list of codes,
  \<open>name_by_code c\<close> returns a name \<open>n\<close>, \<open>code_by_name n\<close> returns a code \<open>c'\<close>, and
  \<open>name_by_code c'\<close> returns \<open>n\<close> again. The code \<open>c'\<close> need not be \<open>c\<close>: when several
  codes carry the name, the reverse dictionary keeps the last of them.
\<close>

theorem name_round_trip:
  assumes "SDMXMetadata_init parsed = Inr m" and "c \<in> set (codes m)"
  shows "\<exists>n c'. name_by_code m c = Inr n \<and> code_by_name m n = Inr c' \<and>
           name_by_code m c' = Inr n"
proof -
  from init_names [OF assms(1)]
  have nc: "names_consistent (root m) m"
    and dm: "\<forall>x. (concept_code_to_name m x \<noteq> None) = (x \<in> set (concept_codes m))"
    by simp_all
  from assms(2) dm obtain n where n: "concept_code_to_name m c = Some n"
    by (auto simp: codes_def)
  with nc obtain c' where c': "name_to_concept_code m n = Some c'"
    unfolding names_consistent_def by fastforce
  with nc have "concept_code_to_name m c' = Some n"
    unfolding names_consistent_def by blast
  with n c' show ?thesis
    by (simp add: name_by_code_def code_by_name_def)
qed

theorem name_round_trip_witness:
  "SDMXMetadata_init doc_shared = Inr shared_model \<and> ''REF'' \<in> set (codes shared_model) \<and>
   (\<exists>n c'. name_by_code shared_model ''REF'' = Inr n \<and>
      code_by_name shared_model n = Inr c' \<and> name_by_code shared_model c' = Inr n) \<and>
   name_by_code shared_model ''REF'' = Inr (Some ''Area'') \<and>
   code_by_name shared_model (Some ''Area'') = Inr ''CPT''"
proof -
  have h: "''REF'' \<in> set (codes shared_model)"
    by (simp add: codes_def shared_model_def)
  have "name_by_code shared_model ''REF'' = Inr (Some ''Area'')"
    and "code_by_name shared_model (Some ''Area'') = Inr ''CPT''"
    by (simp_all add: name_by_code_def code_by_name_def shared_model_def)
  with h shared_init name_round_trip [OF shared_init h] show ?thesis by blast
qed

section \<open>Queries\<close>

text \<open>
  Claim C4. For every object and every concept code, \<open>description_by_code_level\<close>
  returns the empty coded value as it is, and for the primary measure code it returns
  any coded value as it is (also \<^verbatim>\<open>None\<close>). No exception is raised in either case.
\<close>

theorem description_passthrough:
  "description_by_code_level self code (Some '''') False = Inr (Some '''') \<and>
   description_by_code_level self (primary_measure_code self) v False = Inr v"
  by (simp add: description_by_code_level_def py_falsy_def is_primary_measure_code_def)

theorem description_passthrough_witness:
  "description_by_code_level census_model ''SEX'' (Some '''') False = Inr (Some '''') \<and>
   description_by_code_level census_model ''OBS_VALUE'' (Some ''42.7'') False =
     Inr (Some ''42.7'')"
proof -
  have "primary_measure_code census_model = ''OBS_VALUE''"
    by (simp add: census_model_def)
  with description_passthrough [of census_model "''SEX''" "Some ''42.7''"]
  show ?thesis by simp
qed

text \<open>
  Claim C9. With \<open>trim\<close> set, the primary measure branch and the empty-value branch
  still return the coded value exactly as given, surrounding whitespace included; the
  flag acts on the lookup branch only, where the stored description is stripped.
\<close>

theorem trim_only_on_lookup:
  "description_by_code_level self (primary_measure_code self) (Some v) True = Inr (Some v) \<and>
   description_by_code_level self code (Some '''') True = Inr (Some '''') \<and>
   (w \<noteq> '''' \<and> \<not> is_primary_measure_code self code \<and>
    code_levels self code = Some levels \<and> levels w = Some (Some d) \<longrightarrow>
      description_by_code_level self code (Some w) True = Inr (Some (py_strip d)))"
  by (simp add: description_by_code_level_def py_falsy_def is_primary_measure_code_def)

theorem trim_only_on_lookup_witness:
  "description_by_code_level census_model ''OBS_VALUE'' (Some '' 42.7 '') True =
     Inr (Some '' 42.7 '') \<and>
   py_strip '' 42.7 '' = ''42.7'' \<and>
   description_by_code_level census_model ''AGE'' (Some ''01'') True =
     Inr (Some ''75 years and over'')"
proof -
  have p: "primary_measure_code census_model = ''OBS_VALUE''"
    by (simp add: census_model_def)
  have a: "''01'' \<noteq> '''' \<and> \<not> is_primary_measure_code census_model ''AGE'' \<and>
    code_levels census_model ''AGE'' = Some [''01'' \<mapsto> Some ''   75 years and over''] \<and>
    [''01'' \<mapsto> Some ''   75 years and over''] ''01'' = Some (Some ''   75 years and over'')"
    by (simp add: census_model_def is_primary_measure_code_def)
  have s: "py_strip '' 42.7 '' = ''42.7''"
    "py_strip ''   75 years and over'' = ''75 years and over''"
    by (simp_all add: py_strip_def py_isspace_def)
  from trim_only_on_lookup [of census_model "'' 42.7 ''" "''AGE''" "''01''"
      "[''01'' \<mapsto> Some ''   75 years and over'']" "''   75 years and over''"] p a s
  show ?thesis by simp
qed

lemma unknown_code_raises:
  "v \<noteq> '''' \<Longrightarrow> \<not> is_primary_measure_code self code \<Longrightarrow> code_levels self code = None \<Longrightarrow>
   description_by_code_level self code (Some v) trim = Inl KeyError"
  by (simp add: description_by_code_level_def py_falsy_def)

text \<open>
  Claim C10. \<open>description_by_code_level\<close> returns the empty coded value as it is for
  every object, every code and either setting of \<open>trim\<close>: also for a code that is not
  in the list of concept codes, is not the primary measure and has no code levels, for
  which any other coded value raises \<open>KeyError\<close>.
\<close>

theorem empty_value_never_raises:
  "description_by_code_level self code (Some '''') trim = Inr (Some '''')"
  by (simp add: description_by_code_level_def py_falsy_def)

theorem empty_value_never_raises_witness:
  "''NOPE'' \<notin> set (codes census_model) \<and> \<not> is_primary_measure_code census_model ''NOPE'' \<and>
   description_by_code_level census_model ''NOPE'' (Some ''1'') False = Inl KeyError \<and>
   description_by_code_level census_model ''NOPE'' (Some '''') False = Inr (Some '''')"
proof -
  have "''NOPE'' \<notin> set (codes census_model)"
    and p: "\<not> is_primary_measure_code census_model ''NOPE''"
    and n: "code_levels census_model ''NOPE'' = None"
    by (simp_all add: codes_def is_primary_measure_code_def census_model_def)
  moreover have "description_by_code_level census_model ''NOPE'' (Some ''1'') False = Inl KeyError"
    using p n by (simp add: unknown_code_raises)
  ultimately show ?thesis
    using empty_value_never_raises [of census_model "''NOPE''" False] by simp
qed

section \<open>The code levels\<close>

subsection \<open>Which concepts have code levels\<close>

lemma load_concept_refs_consistent:
  "load_concept_refs refs self = Inr self' \<Longrightarrow> refs_consistent self \<Longrightarrow> refs_consistent self'"
proof (induction refs arbitrary: self)
  case Nil
  then show ?case by simp
next
  case (Cons e refs)
  from Cons.prems(1) obtain code where code: "attrib e ''conceptRef'' = Some code"
    by (auto split: option.splits)
  show ?case
  proof (cases "attrib e ''codelist''")
    case None
    let ?s = "self\<lparr>concept_codes := concept_codes self @ [code]\<rparr>"
    from Cons.prems(1) code None have r: "load_concept_refs refs ?s = Inr self'"
      by (simp add: Let_def)
    have "refs_consistent ?s"
      using Cons.prems(2) by (auto simp: refs_consistent_def)
    from Cons.IH [OF r this] show ?thesis .
  next
    case (Some key)
    let ?s = "self\<lparr>concept_codes := concept_codes self @ [code],
      concept_codelist_keys := concept_codelist_keys self @ [key],
      concept_code_to_codelist_key := (concept_code_to_codelist_key self)(code \<mapsto> key),
      codelist_key_to_concept_code := (codelist_key_to_concept_code self)(key \<mapsto> code)\<rparr>"
    from Cons.prems(1) code Some have r: "load_concept_refs refs ?s = Inr self'"
      by (simp add: Let_def)
    have "refs_consistent ?s"
      using Cons.prems(2) by (auto simp: refs_consistent_def)
    from Cons.IH [OF r this] show ?thesis .
  qed
qed

lemma load_levels_dom:
  "load_levels ls cc self = Inr self' \<Longrightarrow> code_levels self cc \<noteq> None \<Longrightarrow>
   (code_levels self' x \<noteq> None) = (code_levels self x \<noteq> None)"
proof (induction ls arbitrary: self)
  case Nil
  then show ?case by simp
next
  case (Cons l ls)
  from Cons.prems obtain v d levels where
    lv: "code_levels self cc = Some levels"
    and r: "load_levels ls cc
       (self\<lparr>code_levels := (code_levels self)(cc \<mapsto> levels(v \<mapsto> etext d))\<rparr>) = Inr self'"
    by (auto split: option.splits)
  from Cons.IH [OF r] lv show ?case by auto
qed

lemma load_code_lists_dom:
  "load_code_lists ks self = Inr self' \<Longrightarrow>
   (code_levels self' c \<noteq> None) =
     (code_levels self c \<noteq> None \<or>
      (\<exists>k \<in> set ks. codelist_key_to_concept_code self k = Some c \<and>
         element_truthy (find_code_list (root self) k)))"
proof (induction ks arbitrary: self)
  case Nil
  then show ?case by simp
next
  case (Cons k ks)
  show ?case
  proof (cases "element_truthy (find_code_list (root self) k)")
    case False
    with Cons.prems have "load_code_lists ks self = Inr self'"
      by (simp add: Let_def split: if_splits)
    from Cons.IH [OF this] False show ?thesis by auto
  next
    case True
    from Cons.prems True obtain cc self1 where
      cc: "codelist_key_to_concept_code self k = Some cc"
      and l: "load_levels
            (findall_child ''Code'' (the (find_code_list (root self) k)))
            cc (self\<lparr>code_levels := (code_levels self)(cc \<mapsto> Map.empty)\<rparr>) = Inr self1"
      and r: "load_code_lists ks self1 = Inr self'"
      by (rule load_code_lists_step)
    from load_levels_frame [OF l]
    have f: "root self1 = root self"
      "codelist_key_to_concept_code self1 = codelist_key_to_concept_code self"
      by (simp_all add: same_concepts_def)
    have d: "(code_levels self1 c \<noteq> None) = (code_levels self c \<noteq> None \<or> c = cc)"
      using load_levels_dom [OF l, of c] by auto
    from Cons.IH [OF r] f d cc True show ?thesis by auto
  qed
qed

lemma init_code_levels:
  assumes "SDMXMetadata_init parsed = Inr m"
  shows "refs_consistent m \<and>
    (\<forall>c. (code_levels m c \<noteq> None) =
       (\<exists>k \<in> set (concept_codelist_keys m). codelist_key_to_concept_code m k = Some c \<and>
          element_truthy (find_code_list (root m) k)))"
proof -
  from assms obtain s1 s2 s3 where
    b: "load_concept_refs (findall_concept_refs (root s1))
       (s1\<lparr>concept_codes := [], concept_codelist_keys := [],
            concept_code_to_codelist_key := Map.empty,
            codelist_key_to_concept_code := Map.empty,
            concept_code_to_name := Map.empty,
            name_to_concept_code := Map.empty\<rparr>) = Inr s2"
    and c: "load_concept_names (concept_codes s2) s2 = Inr s3"
    and d: "load_code_lists (concept_codelist_keys s3) (s3\<lparr>code_levels := Map.empty\<rparr>) = Inr m"
    by (rule init_stages)
  note fc = load_concept_names_frame [OF c]
  note fd = load_code_lists_frame [OF d]
  have "refs_consistent s2"
    by (rule load_concept_refs_consistent [OF b]) (simp add: refs_consistent_def)
  then have 1: "refs_consistent m"
    using fc fd by (simp add: refs_consistent_def same_concepts_def)
  have 2: "(code_levels m c \<noteq> None) =
       (\<exists>k \<in> set (concept_codelist_keys m). codelist_key_to_concept_code m k = Some c \<and>
          element_truthy (find_code_list (root m) k))" for c
    using load_code_lists_dom [OF d, of c] fd by (simp add: same_concepts_def)
  from 1 2 show ?thesis by blast
qed

text \<open>
  Claim C2, as the code has it. On a constructed object \<open>code_levels_by_code\<close> returns
  \<^verbatim>\<open>None\<close> for the primary measure code. For any other code it raises \<open>KeyError\<close>
  when no code levels are stored for it: that is so for a code that is not in the list
  of concept codes, and equally for a listed concept without a code list key. When code
  levels are stored, it returns that dictionary.
\<close>

theorem code_levels_by_code_cases:
  assumes "SDMXMetadata_init parsed = Inr m"
  shows "(is_primary_measure_code m code \<longrightarrow> code_levels_by_code m code = Inr None) \<and>
    (\<not> is_primary_measure_code m code \<and> code \<notin> set (codes m) \<longrightarrow>
       code_levels_by_code m code = Inl KeyError) \<and>
    (\<not> is_primary_measure_code m code \<and> concept_code_to_codelist_key m code = None \<longrightarrow>
       code_levels_by_code m code = Inl KeyError) \<and>
    (\<not> is_primary_measure_code m code \<and> code_levels m code = None \<longrightarrow>
       code_levels_by_code m code = Inl KeyError) \<and>
    (\<not> is_primary_measure_code m code \<and> code_levels m code = Some levels \<longrightarrow>
       code_levels_by_code m code = Inr (Some levels))"
proof -
  from init_code_levels [OF assms]
  have rc: "refs_consistent m"
    and cl: "code_levels m code \<noteq> None \<Longrightarrow>
       \<exists>k \<in> set (concept_codelist_keys m). codelist_key_to_concept_code m k = Some code"
    by auto
  have key: "concept_code_to_codelist_key m code = None \<Longrightarrow> code_levels m code = None"
    using rc cl unfolding refs_consistent_def by blast
  have undiscovered: "code \<notin> set (codes m) \<Longrightarrow> code_levels m code = None"
    using rc key unfolding refs_consistent_def codes_def by blast
  show ?thesis
    using key undiscovered by (auto simp: code_levels_by_code_def)
qed

theorem code_levels_by_code_cases_witness:
  "SDMXMetadata_init doc_census = Inr census_model \<and>
   code_levels_by_code census_model ''OBS_VALUE'' = Inr None \<and>
   ''NOPE'' \<notin> set (codes census_model) \<and>
   code_levels_by_code census_model ''NOPE'' = Inl KeyError \<and>
   ''TIME'' \<in> set (codes census_model) \<and>
   concept_code_to_codelist_key census_model ''TIME'' = None \<and>
   code_levels_by_code census_model ''TIME'' = Inl KeyError \<and>
   code_levels_by_code census_model ''AGE'' =
     Inr (Some [''01'' \<mapsto> Some ''   75 years and over''])"
proof -
  have facts: "is_primary_measure_code census_model ''OBS_VALUE''"
    "\<not> is_primary_measure_code census_model ''NOPE''"
    "\<not> is_primary_measure_code census_model ''TIME''"
    "\<not> is_primary_measure_code census_model ''AGE''"
    "''NOPE'' \<notin> set (codes census_model)"
    "''TIME'' \<in> set (codes census_model)"
    "concept_code_to_codelist_key census_model ''TIME'' = None"
    "code_levels census_model ''AGE'' = Some [''01'' \<mapsto> Some ''   75 years and over'']"
    by (simp_all add: is_primary_measure_code_def codes_def census_model_def)
  have 1: "code_levels_by_code census_model ''OBS_VALUE'' = Inr None"
    using code_levels_by_code_cases [OF census_init, of "''OBS_VALUE''"] facts(1) by simp
  have 2: "code_levels_by_code census_model ''NOPE'' = Inl KeyError"
    using code_levels_by_code_cases [OF census_init, of "''NOPE''"] facts(2,5) by simp
  have 3: "code_levels_by_code census_model ''TIME'' = Inl KeyError"
    using code_levels_by_code_cases [OF census_init, of "''TIME''"] facts(3,7) by simp
  have 4: "code_levels_by_code census_model ''AGE'' =
     Inr (Some [''01'' \<mapsto> Some ''   75 years and over''])"
    using code_levels_by_code_cases [OF census_init, of "''AGE''"
      "[''01'' \<mapsto> Some ''   75 years and over'']"] facts(4,8) by simp
  from census_init facts(5,6,7) 1 2 3 4 show ?thesis by simp
qed

text \<open>
  Claim C2 as stated fails on the census document: \<open>TIME\<close> is a concept of the key
  family, it is not the primary measure and it has no code list, and the query raises
  \<open>KeyError\<close> instead of returning \<^verbatim>\<open>None\<close>.
\<close>

theorem no_code_list_is_not_absent:
  "SDMXMetadata_init doc_census = Inr census_model \<and>
   ''TIME'' \<in> set (codes census_model) \<and>
   \<not> is_primary_measure_code census_model ''TIME'' \<and>
   concept_code_to_codelist_key census_model ''TIME'' = None \<and>
   code_levels_by_code census_model ''TIME'' = Inl KeyError \<and>
   code_levels_by_code census_model ''TIME'' \<noteq> Inr None"
  using census_init
  by (simp add: code_levels_by_code_def is_primary_measure_code_def codes_def census_model_def)

subsection \<open>Missing and empty code lists\<close>

lemma sparse_code_lists:
  "find_code_list (root sparse_model) ''CL_GEO'' =
     Some (Element ''CodeList'' [''id'' \<mapsto> ''CL_GEO''] None
             [Element ''Name'' Map.empty (Some ''Geography'') []])"
  "find_code_list (root sparse_model) ''CL_DUR'' =
     Some (Element ''CodeList'' [''id'' \<mapsto> ''CL_DUR''] None [])"
  "find_code_list (root sparse_model) ''CL_REG'' = None"
  by (simp_all add: sparse_model_def doc_sparse_def find_code_list_def findall_by_id_def
      findall_descendant_def descendants_def py_first_def remove_xml_namespace_def)

text \<open>
  Claim C6, as the code has it. A code list key without a double quote whose
  \<open>CodeList\<close> element is missing, or is there without any child element, is skipped by
  the loop: nothing is stored and nothing is raised. The truth test of the loop is false
  in exactly these two cases. A \<open>CodeList\<close> element that has a child element but no
  \<open>Code\<close> child is not skipped: at its key the loop stores an empty dictionary for the
  concept that owns the key and goes on, so a later key of the same owner can still
  replace it. On a constructed object a concept has no stored code levels exactly when
  each listed key that the reverse dictionary gives to the concept is a skipped one.
\<close>

theorem unusable_code_lists:
  "(\<not> path_broken k \<and> \<not> element_truthy (find_code_list (root self) k) \<longrightarrow>
      load_code_lists (k # ks) self = load_code_lists ks self) \<and>
   element_truthy r = (\<exists>e. r = Some e \<and> children e \<noteq> []) \<and>
   (\<not> path_broken k \<and> find_code_list (root self) k = Some code_list \<and>
    children code_list \<noteq> [] \<and> findall_child ''Code'' code_list = [] \<and>
    codelist_key_to_concept_code self k = Some owner \<longrightarrow>
      load_code_lists (k # ks) self =
        load_code_lists ks (self\<lparr>code_levels := (code_levels self)(owner \<mapsto> Map.empty)\<rparr>)) \<and>
   (SDMXMetadata_init parsed = Inr m \<longrightarrow>
      (code_levels m c = None) =
        (\<forall>k \<in> set (concept_codelist_keys m). codelist_key_to_concept_code m k = Some c \<longrightarrow>
           \<not> element_truthy (find_code_list (root m) k)))"
proof -
  have 1: "\<not> path_broken k \<and> \<not> element_truthy (find_code_list (root self) k) \<longrightarrow>
      load_code_lists (k # ks) self = load_code_lists ks self"
    by (simp add: Let_def)
  have 2: "element_truthy r = (\<exists>e. r = Some e \<and> children e \<noteq> [])"
    by (cases r) (simp_all add: element_truthy_def)
  have 3: "\<not> path_broken k \<and> find_code_list (root self) k = Some code_list \<and>
    children code_list \<noteq> [] \<and> findall_child ''Code'' code_list = [] \<and>
    codelist_key_to_concept_code self k = Some owner \<longrightarrow>
      load_code_lists (k # ks) self =
        load_code_lists ks (self\<lparr>code_levels := (code_levels self)(owner \<mapsto> Map.empty)\<rparr>)"
    by (simp add: Let_def element_truthy_def)
  have 4: "SDMXMetadata_init parsed = Inr m \<longrightarrow>
      (code_levels m c = None) =
        (\<forall>k \<in> set (concept_codelist_keys m). codelist_key_to_concept_code m k = Some c \<longrightarrow>
           \<not> element_truthy (find_code_list (root m) k))"
  proof
    assume "SDMXMetadata_init parsed = Inr m"
    from init_code_levels [OF this]
    have "(code_levels m c \<noteq> None) =
       (\<exists>k \<in> set (concept_codelist_keys m). codelist_key_to_concept_code m k = Some c \<and>
          element_truthy (find_code_list (root m) k))" by blast
    then show "(code_levels m c = None) =
        (\<forall>k \<in> set (concept_codelist_keys m). codelist_key_to_concept_code m k = Some c \<longrightarrow>
           \<not> element_truthy (find_code_list (root m) k))" by blast
  qed
  from 1 2 3 4 show ?thesis by blast
qed

theorem unusable_code_lists_witness:
  "SDMXMetadata_init doc_sparse = Inr sparse_model \<and>
   \<not> path_broken ''CL_REG'' \<and>
   find_code_list (root sparse_model) ''CL_REG'' = None \<and>
   \<not> element_truthy (find_code_list (root sparse_model) ''CL_REG'') \<and>
   load_code_lists [''CL_REG''] sparse_model = Inr sparse_model \<and>
   code_levels sparse_model ''REG'' = None \<and>
   \<not> path_broken ''CL_DUR'' \<and>
   find_code_list (root sparse_model) ''CL_DUR'' =
     Some (Element ''CodeList'' [''id'' \<mapsto> ''CL_DUR''] None []) \<and>
   \<not> element_truthy (find_code_list (root sparse_model) ''CL_DUR'') \<and>
   load_code_lists [''CL_DUR''] sparse_model = Inr sparse_model \<and>
   code_levels sparse_model ''DUR'' = None \<and>
   \<not> path_broken ''CL_GEO'' \<and>
   load_code_lists [''CL_GEO''] (sparse_model\<lparr>code_levels := Map.empty\<rparr>) =
     Inr (sparse_model\<lparr>code_levels := [''GEO'' \<mapsto> Map.empty]\<rparr>)"
proof -
  have q: "\<not> path_broken ''CL_REG''" "\<not> path_broken ''CL_DUR''" "\<not> path_broken ''CL_GEO''"
    by (simp_all add: path_broken_def)
  have t: "\<not> element_truthy (find_code_list (root sparse_model) ''CL_REG'')"
    "\<not> element_truthy (find_code_list (root sparse_model) ''CL_DUR'')"
    by (simp_all add: sparse_code_lists element_truthy_def)
  have k: "set (concept_codelist_keys sparse_model) = {''CL_GEO'', ''CL_DUR'', ''CL_REG''}"
    "codelist_key_to_concept_code sparse_model ''CL_GEO'' = Some ''GEO''"
    "codelist_key_to_concept_code sparse_model ''CL_DUR'' = Some ''DUR''"
    "codelist_key_to_concept_code sparse_model ''CL_REG'' = Some ''REG''"
    by (simp_all add: sparse_model_def)
  note reg = unusable_code_lists [of "''CL_REG''" sparse_model "[]" None
      "Element ''CodeList'' Map.empty None []" "''REG''" doc_sparse sparse_model "''REG''"]
  note dur = unusable_code_lists [of "''CL_DUR''" sparse_model "[]" None
      "Element ''CodeList'' Map.empty None []" "''DUR''" doc_sparse sparse_model "''DUR''"]
  let ?s = "sparse_model\<lparr>code_levels := Map.empty\<rparr>"
  let ?geo = "Element ''CodeList'' [''id'' \<mapsto> ''CL_GEO''] None
             [Element ''Name'' Map.empty (Some ''Geography'') []]"
  note geo = unusable_code_lists [of "''CL_GEO''" ?s "[]" None ?geo "''GEO''"
      doc_sparse sparse_model "''GEO''"]
  have r1: "load_code_lists [''CL_REG''] sparse_model = Inr sparse_model"
    and n1: "code_levels sparse_model ''REG'' = None"
    using reg sparse_init q t k by simp_all
  have r2: "load_code_lists [''CL_DUR''] sparse_model = Inr sparse_model"
    and n2: "code_levels sparse_model ''DUR'' = None"
    using dur sparse_init q t k by simp_all
  have g: "find_code_list (root ?s) ''CL_GEO'' = Some ?geo"
    "children ?geo \<noteq> []" "findall_child ''Code'' ?geo = []"
    "codelist_key_to_concept_code ?s ''CL_GEO'' = Some ''GEO''"
    using sparse_code_lists(1) k(2) by (simp_all add: findall_child_def)
  have r3: "load_code_lists [''CL_GEO''] ?s =
     Inr (sparse_model\<lparr>code_levels := [''GEO'' \<mapsto> Map.empty]\<rparr>)"
    using geo q g by simp
  from sparse_init q t sparse_code_lists r1 n1 r2 n2 r3 show ?thesis by simp
qed

text \<open>
  Claim C6 as stated fails on a code list with a \<open>Name\<close> child and no \<open>Code\<close> child:
  the element has a child, so the truth test holds and an empty dictionary is stored for
  \<open>GEO\<close>, which \<open>code_levels_by_code\<close> returns; the missing code list of \<open>REG\<close> stores
  nothing and the same query raises \<open>KeyError\<close>.
\<close>

theorem empty_code_list_is_stored:
  "SDMXMetadata_init doc_sparse = Inr sparse_model \<and>
   concept_code_to_codelist_key sparse_model ''GEO'' = Some ''CL_GEO'' \<and>
   findall_child ''Code'' (the (find_code_list (root sparse_model) ''CL_GEO'')) = [] \<and>
   code_levels sparse_model ''GEO'' = Some Map.empty \<and>
   code_levels_by_code sparse_model ''GEO'' = Inr (Some Map.empty) \<and>
   concept_code_to_codelist_key sparse_model ''REG'' = Some ''CL_REG'' \<and>
   find_code_list (root sparse_model) ''CL_REG'' = None \<and>
   code_levels sparse_model ''REG'' = None \<and>
   code_levels_by_code sparse_model ''REG'' = Inl KeyError"
proof -
  have "findall_child ''Code'' (the (find_code_list (root sparse_model) ''CL_GEO'')) = []"
    by (simp add: sparse_code_lists findall_child_def)
  moreover have "concept_code_to_codelist_key sparse_model ''GEO'' = Some ''CL_GEO''"
    "code_levels sparse_model ''GEO'' = Some Map.empty"
    "code_levels_by_code sparse_model ''GEO'' = Inr (Some Map.empty)"
    "concept_code_to_codelist_key sparse_model ''REG'' = Some ''CL_REG''"
    "code_levels sparse_model ''REG'' = None"
    "code_levels_by_code sparse_model ''REG'' = Inl KeyError"
    by (simp_all add: sparse_model_def code_levels_by_code_def is_primary_measure_code_def)
  ultimately show ?thesis
    using sparse_init sparse_code_lists by simp
qed

subsection \<open>When the constructor returns an object\<close>










subsection \<open>A code list shared by two concepts\<close>

text \<open>
  Claim C1 at a document in which two concepts name the same code list. The reverse
  dictionary keeps one owner for each code list key, the later concept \<open>CPT\<close>, so the
  loop stores the code levels under \<open>CPT\<close> twice and never under \<open>REF\<close>. The pair of
  the coded value \<open>1\<close> and the description \<open>North\<close> is recorded for the code list of
  \<open>REF\<close>, and the query for \<open>REF\<close> raises \<open>KeyError\<close>.
\<close>

theorem shared_code_list_loses_first_concept:
  "SDMXMetadata_init doc_shared = Inr shared_model \<and>
   ''REF'' \<in> set (codes shared_model) \<and>
   \<not> is_primary_measure_code shared_model ''REF'' \<and>
   concept_code_to_codelist_key shared_model ''REF'' = Some ''CL_AREA'' \<and>
   map (\<lambda>level. (attrib level ''value'',
                  map_option etext (py_first (findall_child ''Description'' level))))
     (findall_child ''Code'' (the (find_code_list (root shared_model) ''CL_AREA''))) =
     [(Some ''1'', Some (Some ''North''))] \<and>
   description_by_code_level shared_model ''REF'' (Some ''1'') False = Inl KeyError \<and>
   description_by_code_level shared_model ''CPT'' (Some ''1'') False = Inr (Some ''North'')"
proof -
  have "find_code_list (root shared_model) ''CL_AREA'' =
     Some (Element ''CodeList'' [''id'' \<mapsto> ''CL_AREA''] None
          [Element ''Code'' [''value'' \<mapsto> ''1''] None
             [Element ''Description'' Map.empty (Some ''North'') []]])"
    by (simp add: shared_model_def doc_shared_def find_code_list_def findall_by_id_def
      findall_descendant_def descendants_def py_first_def remove_xml_namespace_def)
  then have "map (\<lambda>level. (attrib level ''value'',
                  map_option etext (py_first (findall_child ''Description'' level))))
     (findall_child ''Code'' (the (find_code_list (root shared_model) ''CL_AREA''))) =
     [(Some ''1'', Some (Some ''North''))]"
    by (simp add: findall_child_def py_first_def)
  moreover have "''REF'' \<in> set (codes shared_model)"
    "\<not> is_primary_measure_code shared_model ''REF''"
    "concept_code_to_codelist_key shared_model ''REF'' = Some ''CL_AREA''"
    "description_by_code_level shared_model ''REF'' (Some ''1'') False = Inl KeyError"
    "description_by_code_level shared_model ''CPT'' (Some ''1'') False = Inr (Some ''North'')"
    by (simp_all add: codes_def is_primary_measure_code_def description_by_code_level_def
      py_falsy_def shared_model_def)
  ultimately show ?thesis using shared_init by simp
qed

subsection \<open>A code list with one owner\<close>

lemma find_snoc:
  "List.find P (xs @ [x]) =
     (case List.find P xs of None \<Rightarrow> (if P x then Some x else None) | Some y \<Rightarrow> Some y)"
  by (induction xs) auto

lemma find_stronger:
  "List.find P xs = Some k \<Longrightarrow> (\<And>x. Q x \<Longrightarrow> P x) \<Longrightarrow> Q k \<Longrightarrow> List.find Q xs = Some k"
  by (induction xs) (auto split: if_splits)

lemma load_levels_result:
  "load_levels ls cc self = Inr self' \<Longrightarrow> code_levels self cc = Some d0 \<Longrightarrow>
   code_levels self' = (code_levels self)(cc \<mapsto> d0 ++ map_of (rev (level_pairs ls)))"
proof (induction ls arbitrary: self d0)
  case Nil
  then show ?case by (auto simp: level_pairs_def List.map_filter_simps)
next
  case (Cons l ls)
  from Cons.prems obtain v d where
    v: "attrib l ''value'' = Some v"
    and d: "py_first (findall_child ''Description'' l) = Some d"
    and r: "load_levels ls cc
       (self\<lparr>code_levels := (code_levels self)(cc \<mapsto> d0(v \<mapsto> etext d))\<rparr>) = Inr self'"
    by (auto split: option.splits)
  have p: "level_pairs (l # ls) = (v, etext d) # level_pairs ls"
    using v d by (simp add: level_pairs_def List.map_filter_simps)
  have e: "d0(v \<mapsto> etext d) ++ map_of (rev (level_pairs ls)) =
        d0 ++ map_of (rev (level_pairs (l # ls)))"
    by (rule ext) (simp add: p map_add_def split: option.splits)
  let ?s = "self\<lparr>code_levels := (code_levels self)(cc \<mapsto> d0(v \<mapsto> etext d))\<rparr>"
  have "code_levels self' =
      (code_levels ?s)(cc \<mapsto> d0(v \<mapsto> etext d) ++ map_of (rev (level_pairs ls)))"
    by (rule Cons.IH [OF r]) (simp add: fun_eq_iff)
  also have "\<dots> = (code_levels self)(cc \<mapsto> d0 ++ map_of (rev (level_pairs (l # ls))))"
    unfolding e by simp
  finally show ?case .
qed

lemma load_code_lists_result:
  "load_code_lists ks self = Inr self' \<Longrightarrow>
   code_levels self' c =
     (case List.find (owns_usable self c) (rev ks) of
        None \<Rightarrow> code_levels self c
      | Some k \<Rightarrow> Some (map_of (rev (code_list_pairs (the (find_code_list (root self) k))))))"
proof (induction ks arbitrary: self)
  case Nil
  then show ?case by simp
next
  case (Cons k ks)
  show ?case
  proof (cases "element_truthy (find_code_list (root self) k)")
    case False
    with Cons.prems have "load_code_lists ks self = Inr self'"
      by (simp add: Let_def split: if_splits)
    from Cons.IH [OF this] False show ?thesis
      by (simp add: find_snoc owns_usable_def split: option.splits)
  next
    case True
    from Cons.prems True obtain cc self1 where
      cc: "codelist_key_to_concept_code self k = Some cc"
      and l: "load_levels
            (findall_child ''Code'' (the (find_code_list (root self) k)))
            cc (self\<lparr>code_levels := (code_levels self)(cc \<mapsto> Map.empty)\<rparr>) = Inr self1"
      and r: "load_code_lists ks self1 = Inr self'"
      by (rule load_code_lists_step)
    from load_levels_frame [OF l]
    have f: "owns_usable self1 = owns_usable self" "root self1 = root self"
      by (auto simp: same_concepts_def owns_usable_def fun_eq_iff)
    have "code_levels self1 =
      (code_levels self)
        (cc \<mapsto> map_of (rev (code_list_pairs (the (find_code_list (root self) k)))))"
      using load_levels_result [OF l, of Map.empty]
      by (simp add: code_list_pairs_def level_pairs_def)
    with Cons.IH [OF r, of] f cc True show ?thesis
      by (auto simp: find_snoc owns_usable_def split: option.splits)
  qed
qed

lemma load_concept_refs_last_owner:
  "load_concept_refs refs self = Inr self' \<Longrightarrow> last_owner_listed self \<Longrightarrow>
   last_owner_listed self'"
proof (induction refs arbitrary: self)
  case Nil
  then show ?case by simp
next
  case (Cons e refs)
  from Cons.prems(1) obtain code where code: "attrib e ''conceptRef'' = Some code"
    by (auto split: option.splits)
  show ?case
  proof (cases "attrib e ''codelist''")
    case None
    let ?s = "self\<lparr>concept_codes := concept_codes self @ [code]\<rparr>"
    from Cons.prems(1) code None have r: "load_concept_refs refs ?s = Inr self'"
      by (simp add: Let_def)
    have "last_owner_listed ?s"
      using Cons.prems(2) by (simp add: last_owner_listed_def)
    from Cons.IH [OF r this] show ?thesis .
  next
    case (Some key)
    let ?s = "self\<lparr>concept_codes := concept_codes self @ [code],
      concept_codelist_keys := concept_codelist_keys self @ [key],
      concept_code_to_codelist_key := (concept_code_to_codelist_key self)(code \<mapsto> key),
      codelist_key_to_concept_code := (codelist_key_to_concept_code self)(key \<mapsto> code)\<rparr>"
    from Cons.prems(1) code Some have r: "load_concept_refs refs ?s = Inr self'"
      by (simp add: Let_def)
    have "last_owner_listed ?s"
      unfolding last_owner_listed_def
    proof (intro allI impI)
      fix c k
      assume a: "concept_code_to_codelist_key ?s c = Some k \<and>
            codelist_key_to_concept_code ?s k = Some c"
      show "List.find (\<lambda>k'. codelist_key_to_concept_code ?s k' = Some c)
            (rev (concept_codelist_keys ?s)) = Some k"
      proof (cases "c = code")
        case True
        with a show ?thesis by simp
      next
        case False
        with a have kk: "k \<noteq> key" by auto
        with a False have old: "concept_code_to_codelist_key self c = Some k"
          "codelist_key_to_concept_code self k = Some c" by simp_all
        with Cons.prems(2) have
          "List.find (\<lambda>k'. codelist_key_to_concept_code self k' = Some c)
            (rev (concept_codelist_keys self)) = Some k"
          unfolding last_owner_listed_def by blast
        then have "List.find (\<lambda>k'. codelist_key_to_concept_code ?s k' = Some c)
            (rev (concept_codelist_keys self)) = Some k"
          by (rule find_stronger) (use kk old False in \<open>auto split: if_splits\<close>)
        with False show ?thesis by simp
      qed
    qed
    from Cons.IH [OF r this] show ?thesis .
  qed
qed

text \<open>
  The lookup that claim C1 describes, for a concept that owns its code list key. On a
  constructed object, let the concept \<open>c\<close> have the code list key \<open>k\<close>, let the reverse
  dictionary give \<open>k\<close> to \<open>c\<close> (no later concept reference names \<open>k\<close> for another
  concept), and let the first \<open>CodeList\<close> element with that identifier record the
  pair of \<open>v\<close> and \<open>d\<close> among pairs with distinct coded values. Then for a coded value
  \<open>v\<close> that is not empty and a concept that is not the primary measure,
  \<open>description_by_code_level\<close> with \<open>trim\<close> off returns \<open>d\<close>.
\<close>

theorem description_of_owned_code_list:
  assumes init: "SDMXMetadata_init parsed = Inr m"
    and key: "concept_code_to_codelist_key m c = Some k"
    and owner: "codelist_key_to_concept_code m k = Some c"
    and cl: "find_code_list (root m) k = Some code_list"
    and uniq: "distinct (map fst (code_list_pairs code_list))"
    and pair: "(v, d) \<in> set (code_list_pairs code_list)"
    and v: "v \<noteq> ''''"
    and np: "\<not> is_primary_measure_code m c"
  shows "description_by_code_level m c (Some v) False = Inr d"
proof -
  from init obtain s1 s2 s3 where
    b: "load_concept_refs (findall_concept_refs (root s1))
       (s1\<lparr>concept_codes := [], concept_codelist_keys := [],
            concept_code_to_codelist_key := Map.empty,
            codelist_key_to_concept_code := Map.empty,
            concept_code_to_name := Map.empty,
            name_to_concept_code := Map.empty\<rparr>) = Inr s2"
    and n: "load_concept_names (concept_codes s2) s2 = Inr s3"
    and l: "load_code_lists (concept_codelist_keys s3) (s3\<lparr>code_levels := Map.empty\<rparr>) = Inr m"
    by (rule init_stages)
  note fn = load_concept_names_frame [OF n]
  note fl = load_code_lists_frame [OF l]
  let ?s = "s3\<lparr>code_levels := Map.empty\<rparr>"
  have "last_owner_listed s2"
    by (rule load_concept_refs_last_owner [OF b]) (simp add: last_owner_listed_def)
  then have "last_owner_listed ?s"
    using fn by (simp add: last_owner_listed_def)
  moreover have same: "concept_code_to_codelist_key ?s = concept_code_to_codelist_key m"
    "codelist_key_to_concept_code ?s = codelist_key_to_concept_code m"
    "root ?s = root m"
    using fl by (simp_all add: same_concepts_def)
  ultimately have last: "List.find (\<lambda>k'. codelist_key_to_concept_code ?s k' = Some c)
      (rev (concept_codelist_keys ?s)) = Some k"
    using key owner unfolding last_owner_listed_def by metis
  from pair have "findall_child ''Code'' code_list \<noteq> []"
    by (auto simp: code_list_pairs_def level_pairs_def List.map_filter_simps)
  then have "children code_list \<noteq> []"
    by (auto simp: findall_child_def)
  with cl same owner have ou: "owns_usable ?s c k"
    by (simp add: owns_usable_def element_truthy_def)
  have "List.find (owns_usable ?s c) (rev (concept_codelist_keys ?s)) = Some k"
    by (rule find_stronger [OF last]) (use ou in \<open>auto simp: owns_usable_def\<close>)
  with load_code_lists_result [OF l, of c] cl same
  have "code_levels m c = Some (map_of (rev (code_list_pairs code_list)))"
    by simp
  moreover from uniq pair have "map_of (rev (code_list_pairs code_list)) v = Some d"
    by (simp add: rev_map [symmetric])
  ultimately show ?thesis
    using v np by (simp add: description_by_code_level_def py_falsy_def)
qed

lemma census_sex_code_list:
  "code_list_pairs (the (find_code_list (root census_model) ''CL_SEX'')) =
     [(''1'', Some ''Total''), (''2'', Some ''Male''), (''3'', Some ''Female'')]"
  "find_code_list (root census_model) ''CL_SEX'' =
     Some (the (find_code_list (root census_model) ''CL_SEX''))"
  by (simp_all add: census_model_def doc_census_def find_code_list_def findall_by_id_def
      findall_descendant_def findall_child_def descendants_def py_first_def
      remove_xml_namespace_def py_split1_def code_list_pairs_def level_pairs_def
      List.map_filter_simps)

theorem description_of_owned_code_list_witness:
  "SDMXMetadata_init doc_census = Inr census_model \<and>
   concept_code_to_codelist_key census_model ''SEX'' = Some ''CL_SEX'' \<and>
   codelist_key_to_concept_code census_model ''CL_SEX'' = Some ''SEX'' \<and>
   code_list_pairs (the (find_code_list (root census_model) ''CL_SEX'')) =
     [(''1'', Some ''Total''), (''2'', Some ''Male''), (''3'', Some ''Female'')] \<and>
   \<not> is_primary_measure_code census_model ''SEX'' \<and>
   description_by_code_level census_model ''SEX'' (Some ''2'') False = Inr (Some ''Male'')"
proof -
  have k: "concept_code_to_codelist_key census_model ''SEX'' = Some ''CL_SEX''"
    and o: "codelist_key_to_concept_code census_model ''CL_SEX'' = Some ''SEX''"
    and np: "\<not> is_primary_measure_code census_model ''SEX''"
    by (simp_all add: census_model_def is_primary_measure_code_def)
  have u: "distinct (map fst (code_list_pairs (the (find_code_list (root census_model) ''CL_SEX''))))"
    and p: "(''2'', Some ''Male'') \<in>
      set (code_list_pairs (the (find_code_list (root census_model) ''CL_SEX'')))"
    and v: "''2'' \<noteq> ''''"
    by (simp_all add: census_sex_code_list(1))
  from description_of_owned_code_list [OF census_init k o census_sex_code_list(2) u p v np]
    census_init k o np census_sex_code_list(1)
  show ?thesis by simp
qed

subsection \<open>Identifiers that break the path\<close>

lemma concept_name_broken:
  "path_broken code \<Longrightarrow> concept_name r code = Inl SyntaxError"
  by (simp add: concept_name_def)

lemma load_concept_names_broken:
  "path_broken code \<Longrightarrow> load_concept_names (code # rest) self = Inl SyntaxError"
  by (simp add: concept_name_broken)

lemma load_code_lists_broken:
  "path_broken key \<Longrightarrow> load_code_lists (key # rest) self = Inl SyntaxError"
  by simp

lemma broken_example:
  "path_broken [CHR ''a'', CHR 0x22, CHR ''b'']" "\<not> path_broken ''CL_SEX''"
  by (simp_all add: path_broken_def)

end
